theory Spec2Isabelle
  imports Main
begin

section \<open>Values that cross the sandbox boundary\<close>

text \<open>
  Tool arguments and parameters are JavaScript values. The model keeps the JSON part of
  them. A string is a list of code units (each \<^typ>\<open>char\<close> stands for one code unit below
  256, so \<^const>\<open>length\<close> is JavaScript's \<open>.length\<close>); a number is an integer; an object is
  the list of its own enumerable entries in the order \<open>Object.entries\<close> yields them.
\<close>

datatype json =
    JNull
  | JBool bool
  | JNum int
  | JStr string
  | JArr "json list"
  | JObj "(string \<times> json) list"

datatype error = TypeError | Error string

text \<open>\<open>typeof v === 'object'\<close>: objects, arrays and \<open>null\<close>.\<close>

fun typeof_object :: "json \<Rightarrow> bool" where
  "typeof_object JNull = True"
| "typeof_object (JArr xs) = True"
| "typeof_object (JObj kvs) = True"
| "typeof_object v = False"

text \<open>JavaScript truthiness, as tested by \<open>if (args[0])\<close>.\<close>

fun truthy :: "json \<Rightarrow> bool" where
  "truthy JNull = False"
| "truthy (JBool b) = b"
| "truthy (JNum n) = (n \<noteq> 0)"
| "truthy (JStr s) = (s \<noteq> [])"
| "truthy (JArr xs) = True"
| "truthy (JObj kvs) = True"

subsection \<open>Strings\<close>

text \<open>Decimal rendering of an index or a counter, as a template literal does it.\<close>

fun nat_to_string :: "nat \<Rightarrow> string" where
  "nat_to_string n =
     (if n < 10 then [char_of (48 + n)]
      else nat_to_string (n div 10) @ [char_of (48 + n mod 10)])"

declare nat_to_string.simps [simp del]

definition int_to_string :: "int \<Rightarrow> string" where
  "int_to_string i = (if i < 0 then CHR ''-'' # nat_to_string (nat (- i)) else nat_to_string (nat i))"

text \<open>
  \<open>String.prototype.toLowerCase\<close> on code units below 256: the ASCII capitals and the
  Latin-1 capitals (all of 0xC0..0xDE but the multiplication sign) move up by 32.
\<close>

definition lower_char :: "char \<Rightarrow> char" where
  "lower_char c =
     (let n = (of_char c :: nat)
      in if (65 \<le> n \<and> n \<le> 90) \<or> (192 \<le> n \<and> n \<le> 222 \<and> n \<noteq> 215)
         then char_of (n + 32) else c)"

definition toLowerCase :: "string \<Rightarrow> string" where
  "toLowerCase s = map lower_char s"

text \<open>\<open>s.startsWith(p)\<close> and \<open>s.includes(p)\<close>, compared code unit by code unit.\<close>

fun startsWith :: "string \<Rightarrow> string \<Rightarrow> bool" where
  "startsWith s [] = True"
| "startsWith [] (p # ps) = False"
| "startsWith (c # cs) (p # ps) = (c = p \<and> startsWith cs ps)"

fun str_includes :: "string \<Rightarrow> string \<Rightarrow> bool" where
  "str_includes [] p = (p = [])"
| "str_includes (c # cs) p = (startsWith (c # cs) p \<or> str_includes cs p)"

text \<open>The entries of an array: its elements under their indices in decimal.\<close>

fun index_entries :: "nat \<Rightarrow> 'a list \<Rightarrow> (string \<times> 'a) list" where
  "index_entries i [] = []"
| "index_entries i (x # xs) = (nat_to_string i, x) # index_entries (Suc i) xs"

section \<open>Argument mapping (runtime manager)\<close>

text \<open>
  \<open>args[i]\<close> is \<open>undefined\<close> past the end of the vector; the only use made of it is the
  truthiness test, so a missing argument is \<^const>\<open>None\<close>.
\<close>

definition arg_at :: "json list \<Rightarrow> nat \<Rightarrow> json option" where
  "arg_at args i = (if i < length args then Some (args ! i) else None)"

text \<open>\<open>if (args[i]) params.name = args[i]\<close>: the entry a truthy argument contributes.\<close>

definition named_if_truthy :: "string \<Rightarrow> json option \<Rightarrow> (string \<times> json) list" where
  "named_if_truthy name a =
     (case a of None \<Rightarrow> [] | Some v \<Rightarrow> if truthy v then [(name, v)] else [])"

definition convertArgsToParams :: "string \<Rightarrow> json list \<Rightarrow> json" where
  "convertArgsToParams toolName args =
     (if toolName = ''store_memory'' then
        JObj (named_if_truthy ''content'' (arg_at args 0)
            @ named_if_truthy ''importance'' (arg_at args 1)
            @ named_if_truthy ''tags'' (arg_at args 2))
      else if toolName = ''recall'' then
        JObj (named_if_truthy ''query'' (arg_at args 0)
            @ named_if_truthy ''limit'' (arg_at args 1))
      else if toolName = ''searchConversations'' then
        JObj (named_if_truthy ''query'' (arg_at args 0)
            @ named_if_truthy ''status'' (arg_at args 1))
      else if toolName = ''get_site_info'' then JObj []
      else if length args = 1 \<and> typeof_object (args ! 0) then args ! 0
      else JObj (map (\<lambda>(k, v). (''arg'' @ k, v)) (index_entries 0 args)))"

text \<open>The tools the \<open>switch\<close> has a case for.\<close>

definition known_tools :: "string list" where
  "known_tools = [''store_memory'', ''recall'', ''searchConversations'', ''get_site_info'']"

section \<open>Serialisation\<close>

text \<open>
  \<open>JSON.stringify\<close> on the values of the model: no white space, strings quoted with the
  two-character escapes and \<open>\u00XX\<close> for the other control characters.
\<close>

definition hex_digit :: "nat \<Rightarrow> char" where
  "hex_digit n = ''0123456789abcdef'' ! (n mod 16)"

definition escape_char :: "char \<Rightarrow> string" where
  "escape_char c =
     (let n = (of_char c :: nat)
      in if n = 34 then [CHR 0x5C, CHR 0x22]
         else if n = 92 then [CHR 0x5C, CHR 0x5C]
         else if n = 8 then [CHR 0x5C, CHR ''b'']
         else if n = 12 then [CHR 0x5C, CHR ''f'']
         else if n = 10 then [CHR 0x5C, CHR ''n'']
         else if n = 13 then [CHR 0x5C, CHR ''r'']
         else if n = 9 then [CHR 0x5C, CHR ''t'']
         else if n < 32 then [CHR 0x5C, CHR ''u'', CHR ''0'', CHR ''0'', hex_digit (n div 16), hex_digit n]
         else [c])"

definition quote :: "string \<Rightarrow> string" where
  "quote s = CHR 0x22 # concat (map escape_char s) @ [CHR 0x22]"

fun JSON_stringify :: "json \<Rightarrow> string"
  and stringify_items :: "json list \<Rightarrow> string"
  and stringify_members :: "(string \<times> json) list \<Rightarrow> string" where
  "JSON_stringify JNull = ''null''"
| "JSON_stringify (JBool b) = (if b then ''true'' else ''false'')"
| "JSON_stringify (JNum n) = int_to_string n"
| "JSON_stringify (JStr s) = quote s"
| "JSON_stringify (JArr xs) = ''['' @ stringify_items xs @ '']''"
| "JSON_stringify (JObj kvs) = ''{'' @ stringify_members kvs @ ''}''"
| "stringify_items [] = []"
| "stringify_items (x # xs) =
     JSON_stringify x @ (if xs = [] then [] else '','' @ stringify_items xs)"
| "stringify_members [] = []"
| "stringify_members ((k, v) # kvs) =
     quote k @ '':'' @ JSON_stringify v @ (if kvs = [] then [] else '','' @ stringify_members kvs)"

section \<open>Security manager\<close>

subsection \<open>Input sanitisation\<close>

text \<open>
  The regular expressions all carry the flags \<open>gi\<close>. A matcher gives the length of the
  match that starts at the head of the remaining input, if there is one; the global
  replacement removes the leftmost matches one after the other and never rescans what it
  has produced.
\<close>

definition ci_eq :: "char \<Rightarrow> char \<Rightarrow> bool" where
  "ci_eq a b = (lower_char a = lower_char b)"

fun match_ci :: "string \<Rightarrow> string \<Rightarrow> bool" where
  "match_ci [] s = True"
| "match_ci (p # ps) [] = False"
| "match_ci (p # ps) (c # cs) = (ci_eq p c \<and> match_ci ps cs)"

definition literal_ci :: "string \<Rightarrow> string \<Rightarrow> nat option" where
  "literal_ci pat s = (if match_ci pat s then Some (length pat) else None)"

fun alternatives :: "(string \<Rightarrow> nat option) list \<Rightarrow> string \<Rightarrow> nat option" where
  "alternatives [] s = None"
| "alternatives (m # ms) s = (case m s of Some n \<Rightarrow> Some n | None \<Rightarrow> alternatives ms s)"

fun replace_global :: "(string \<Rightarrow> nat option) \<Rightarrow> string \<Rightarrow> string" where
  "replace_global m [] = []"
| "replace_global m (c # cs) =
     (case m (c # cs) of
        Some (Suc n) \<Rightarrow> replace_global m (drop n cs)
      | _ \<Rightarrow> c # replace_global m cs)"

text \<open>
  \<open><script\b[^<]*(?:(?!<\/script>)<[^<]*)*<\/script>\<close>: after \<open><script\<close> and a word
  boundary the expression can only advance from one \<open><\<close> to the next, and it must stop
  at the first one that opens \<open></script>\<close>; so the match runs to the end of the first
  \<open></script>\<close> at or after the boundary, and there is none when no \<open></script>\<close> follows.
\<close>

definition is_word_char :: "char \<Rightarrow> bool" where
  "is_word_char c =
     (let n = (of_char c :: nat)
      in (48 \<le> n \<and> n \<le> 57) \<or> (65 \<le> n \<and> n \<le> 90) \<or> n = 95 \<or> (97 \<le> n \<and> n \<le> 122))"

fun find_close :: "string \<Rightarrow> nat option" where
  "find_close [] = None"
| "find_close (c # cs) =
     (if match_ci ''</script>'' (c # cs) then Some 0 else map_option Suc (find_close cs))"

definition script_tag :: "string \<Rightarrow> nat option" where
  "script_tag s =
     (if match_ci ''<script'' s
         \<and> (case drop 7 s of [] \<Rightarrow> True | c # cs \<Rightarrow> \<not> is_word_char c)
      then map_option (\<lambda>j. 7 + j + 9) (find_close (drop 7 s))
      else None)"

definition sanitize_string :: "string \<Rightarrow> string" where
  "sanitize_string v =
     replace_global (alternatives [literal_ci ''onload'', literal_ci ''onerror'', literal_ci ''onclick''])
       (replace_global (literal_ci ''vbscript:'')
         (replace_global (literal_ci ''data:'')
           (replace_global (literal_ci ''javascript:'')
             (replace_global script_tag v))))"

text \<open>
  \<open>sanitizeInputs\<close> walks \<open>Object.entries(params)\<close>, which throws a \<open>TypeError\<close> on \<open>null\<close>
  (the result \<^const>\<open>None\<close>), sees an array as the object of its indices and a primitive as
  the object of its own entries. Assigning to the key \<open>__proto__\<close> of the fresh object
  creates no own property, so that entry is absent from the result.
\<close>

fun assign :: "string \<Rightarrow> json \<Rightarrow> (string \<times> json) list \<Rightarrow> (string \<times> json) list" where
  "assign k v rest = (if k = ''__proto__'' then rest else (k, v) # rest)"

fun sanitizeInputs :: "json \<Rightarrow> json option"
  and sanitizeInputs_entries :: "(string \<times> json) list \<Rightarrow> (string \<times> json) list option"
  and sanitizeInputs_indexed :: "nat \<Rightarrow> json list \<Rightarrow> (string \<times> json) list option"
  and sanitizeInputs_value :: "json \<Rightarrow> json option"
  and sanitizeInputs_items :: "json list \<Rightarrow> json list option" where
  "sanitizeInputs JNull = None"
| "sanitizeInputs (JBool b) = Some (JObj [])"
| "sanitizeInputs (JNum n) = Some (JObj [])"
| "sanitizeInputs (JStr s) =
     Some (JObj (map (\<lambda>(k, c). (k, JStr (sanitize_string [c]))) (index_entries 0 s)))"
| "sanitizeInputs (JArr xs) = map_option JObj (sanitizeInputs_indexed 0 xs)"
| "sanitizeInputs (JObj kvs) = map_option JObj (sanitizeInputs_entries kvs)"
| "sanitizeInputs_entries [] = Some []"
| "sanitizeInputs_entries ((k, v) # kvs) =
     (case sanitizeInputs_value v of
        None \<Rightarrow> None
      | Some v' \<Rightarrow> map_option (assign k v') (sanitizeInputs_entries kvs))"
| "sanitizeInputs_indexed i [] = Some []"
| "sanitizeInputs_indexed i (x # xs) =
     (case sanitizeInputs_value x of
        None \<Rightarrow> None
      | Some x' \<Rightarrow> map_option (assign (nat_to_string i) x') (sanitizeInputs_indexed (Suc i) xs))"
| "sanitizeInputs_value (JStr s) = Some (JStr (sanitize_string s))"
| "sanitizeInputs_value (JArr xs) = map_option JArr (sanitizeInputs_items xs)"
| "sanitizeInputs_value (JObj kvs) = sanitizeInputs (JObj kvs)"
| "sanitizeInputs_value JNull = Some JNull"
| "sanitizeInputs_value (JBool b) = Some (JBool b)"
| "sanitizeInputs_value (JNum n) = Some (JNum n)"
| "sanitizeInputs_items [] = Some []"
| "sanitizeInputs_items (x # xs) =
     (case (if typeof_object x then sanitizeInputs x else Some x) of
        None \<Rightarrow> None
      | Some x' \<Rightarrow> map_option (Cons x') (sanitizeInputs_items xs))"

subsection \<open>Redaction for the audit log\<close>

definition sensitiveKeys :: "string list" where
  "sensitiveKeys = [''password'', ''token'', ''secret'', ''key'', ''auth'', ''credential'']"

text \<open>\<open>sensitiveKeys.some(sensitive => key.toLowerCase().includes(sensitive))\<close>\<close>

definition is_sensitive :: "string \<Rightarrow> bool" where
  "is_sensitive k = list_ex (\<lambda>sensitive. str_includes (toLowerCase k) sensitive) sensitiveKeys"

definition REDACTED :: json where
  "REDACTED = JStr ''[REDACTED]''"

text \<open>
  \<open>sanitizeForLogging\<close> reads \<open>Object.entries\<close> as \<open>sanitizeInputs\<close> does, tests the key
  first and descends into every value that is an object or an array. An array comes out
  as the object of its indices.
\<close>

fun sanitizeForLogging :: "json \<Rightarrow> json option"
  and sanitizeForLogging_entries :: "(string \<times> json) list \<Rightarrow> (string \<times> json) list option"
  and sanitizeForLogging_indexed :: "nat \<Rightarrow> json list \<Rightarrow> (string \<times> json) list option"
  and sanitizeForLogging_value :: "string \<Rightarrow> json \<Rightarrow> json option" where
  "sanitizeForLogging JNull = None"
| "sanitizeForLogging (JBool b) = Some (JObj [])"
| "sanitizeForLogging (JNum n) = Some (JObj [])"
| "sanitizeForLogging (JStr s) =
     Some (JObj (map (\<lambda>(k, c). (k, if is_sensitive k then REDACTED else JStr [c]))
                   (index_entries 0 s)))"
| "sanitizeForLogging (JArr xs) = map_option JObj (sanitizeForLogging_indexed 0 xs)"
| "sanitizeForLogging (JObj kvs) = map_option JObj (sanitizeForLogging_entries kvs)"
| "sanitizeForLogging_entries [] = Some []"
| "sanitizeForLogging_entries ((k, v) # kvs) =
     (case sanitizeForLogging_value k v of
        None \<Rightarrow> None
      | Some v' \<Rightarrow> map_option (assign k v') (sanitizeForLogging_entries kvs))"
| "sanitizeForLogging_indexed i [] = Some []"
| "sanitizeForLogging_indexed i (x # xs) =
     (case sanitizeForLogging_value (nat_to_string i) x of
        None \<Rightarrow> None
      | Some x' \<Rightarrow>
          map_option (assign (nat_to_string i) x') (sanitizeForLogging_indexed (Suc i) xs))"
| "sanitizeForLogging_value k v =
     (if is_sensitive k then Some REDACTED
      else case v of
             JArr xs \<Rightarrow> sanitizeForLogging (JArr xs)
           | JObj kvs \<Rightarrow> sanitizeForLogging (JObj kvs)
           | _ \<Rightarrow> Some v)"

subsection \<open>Policy and state\<close>

datatype tool_list = Wildcard | Tools "string list"

record rate_limit =
  requestsPerMinute :: int
  maxConcurrent :: int

record data_validation =
  maxPayloadSize :: int
  allowedDataTypes :: "string list"
  sanitizeInputs_on :: bool

text \<open>
  \<open>rateLimits\<close> is the mapping without its \<open>default\<close> entry; the entry every policy of the
  data model has is the field \<open>rateLimits_default\<close>.
\<close>

record security_policy =
  allowedServers :: "string list"
  allowedTools :: "string \<rightharpoonup> tool_list"
  rateLimits :: "string \<rightharpoonup> rate_limit"
  rateLimits_default :: rate_limit
  dataValidation :: data_validation
  auditLogging :: bool

text \<open>Of \<open>SecurityPermissions\<close>, the three lists that the checks read.\<close>

record security_permissions =
  fileSystem_read :: "string list"
  fileSystem_write :: "string list"
  network_allowedHosts :: "string list"

record security_context =
  ctx_runtime :: string
  permissions :: security_permissions

record security_validation =
  allowed :: bool
  reason :: "string option"

datatype audit_result = success | denied | error_result

record audit_log_entry =
  timestamp :: int
  runtime :: string
  serverName :: string
  toolName :: string
  params :: json
  result :: audit_result
  entry_reason :: "string option"
  duration :: "int option"

record rate_counter =
  count :: int
  window :: int

record security_manager =
  policy :: security_policy
  rateLimitCounters :: "string \<rightharpoonup> rate_counter"
  concurrentRequests :: "string \<rightharpoonup> int"
  auditLog :: "audit_log_entry list"

text \<open>The constructor's policy.\<close>

definition default_policy :: security_policy where
  "default_policy = \<lparr>
     allowedServers = [''automem'', ''serena'', ''helpscout'', ''wordpress''],
     allowedTools = [
       ''automem'' \<mapsto> Tools [''store_memory'', ''recall'', ''associate'', ''analyze''],
       ''serena'' \<mapsto> Tools [''get_symbols_overview'', ''search_for_pattern''],
       ''helpscout'' \<mapsto> Tools [''searchConversations'', ''getConversationSummary''],
       ''wordpress'' \<mapsto> Tools [''get_site_info'', ''wp_feature_query-posts'']],
     rateLimits = [
       ''automem'' \<mapsto> \<lparr>requestsPerMinute = 100, maxConcurrent = 10\<rparr>,
       ''serena'' \<mapsto> \<lparr>requestsPerMinute = 30, maxConcurrent = 3\<rparr>,
       ''helpscout'' \<mapsto> \<lparr>requestsPerMinute = 20, maxConcurrent = 2\<rparr>,
       ''wordpress'' \<mapsto> \<lparr>requestsPerMinute = 30, maxConcurrent = 3\<rparr>],
     rateLimits_default = \<lparr>requestsPerMinute = 60, maxConcurrent = 5\<rparr>,
     dataValidation = \<lparr>
       maxPayloadSize = 1024 * 1024,
       allowedDataTypes = [''string'', ''number'', ''boolean'', ''object'', ''array''],
       sanitizeInputs_on = True\<rparr>,
     auditLogging = True\<rparr>"

definition new_SecurityManager :: "security_policy \<Rightarrow> security_manager" where
  "new_SecurityManager pol = \<lparr>
     policy = pol,
     rateLimitCounters = Map.empty,
     concurrentRequests = Map.empty,
     auditLog = []\<rparr>"

subsection \<open>The checks\<close>

definition checkRuntimePermissions :: "security_context \<Rightarrow> string \<Rightarrow> string \<Rightarrow> bool" where
  "checkRuntimePermissions context' server tool =
     (if server \<in> set [''helpscout'', ''wordpress'']
         \<and> network_allowedHosts (permissions context') = [] then False
      else if server \<in> set [''serena'', ''automem'']
         \<and> (str_includes tool ''file'' \<or> str_includes tool ''read'' \<or> str_includes tool ''write'')
         \<and> fileSystem_read (permissions context') = []
         \<and> fileSystem_write (permissions context') = [] then False
      else True)"

text \<open>
  Instants are milliseconds since the epoch, and every \<open>new Date()\<close> of one call reads the
  same instant \<open>now\<close>. \<open>getMinutes\<close> is the minute of the hour (in a zone whose offset is a
  whole number of hours).
\<close>

definition getMinutes :: "int \<Rightarrow> nat" where
  "getMinutes now = nat ((now div 60000) mod 60)"

definition rate_key :: "string \<Rightarrow> int \<Rightarrow> string" where
  "rate_key server now = server @ '':'' @ nat_to_string (getMinutes now)"

definition effective_limits :: "security_policy \<Rightarrow> string \<Rightarrow> rate_limit" where
  "effective_limits pol server =
     (case rateLimits pol server of Some l \<Rightarrow> l | None \<Rightarrow> rateLimits_default pol)"

definition cleanupRateLimitCounters :: "int \<Rightarrow> security_manager \<Rightarrow> security_manager" where
  "cleanupRateLimitCounters now sm =
     (let cutoff = now - 2 * 60 * 1000
      in sm\<lparr>rateLimitCounters :=
           (\<lambda>key. case rateLimitCounters sm key of
                     None \<Rightarrow> None
                   | Some counter \<Rightarrow> if window counter < cutoff then None else Some counter)\<rparr>)"

text \<open>The second half of \<open>checkRateLimits\<close>, from \<open>// Check concurrent requests\<close> on.\<close>

definition check_concurrent ::
  "int \<Rightarrow> string \<Rightarrow> rate_limit \<Rightarrow> security_manager \<Rightarrow> bool \<times> security_manager" where
  "check_concurrent now server limits sm =
     (let concurrent = (case concurrentRequests sm server of Some n \<Rightarrow> n | None \<Rightarrow> 0)
      in if concurrent \<ge> maxConcurrent limits then (False, sm)
         else (True, cleanupRateLimitCounters now sm))"

definition checkRateLimits :: "int \<Rightarrow> string \<Rightarrow> security_manager \<Rightarrow> bool \<times> security_manager" where
  "checkRateLimits now server sm =
     (let limits = effective_limits (policy sm) server;
          key = rate_key server now
      in case rateLimitCounters sm key of
           Some counter \<Rightarrow>
             if count counter \<ge> requestsPerMinute limits then (False, sm)
             else check_concurrent now server limits
                    (sm\<lparr>rateLimitCounters :=
                         (rateLimitCounters sm)(key \<mapsto> counter\<lparr>count := count counter + 1\<rparr>)\<rparr>)
         | None \<Rightarrow>
             check_concurrent now server limits
               (sm\<lparr>rateLimitCounters :=
                    (rateLimitCounters sm)(key \<mapsto> \<lparr>count = 1, window = now\<rparr>)\<rparr>))"

record payload_validation =
  valid :: bool
  payload_reason :: "string option"

definition validatePayload :: "security_policy \<Rightarrow> json \<Rightarrow> payload_validation" where
  "validatePayload pol p =
     (let serialized = JSON_stringify p
      in if int (length serialized) > maxPayloadSize (dataValidation pol)
         then \<lparr>valid = False, payload_reason = Some ''Payload exceeds maximum size limit''\<rparr>
         else if sanitizeInputs_on (dataValidation pol)
         then (case sanitizeInputs p of
                 None \<Rightarrow> \<lparr>valid = False, payload_reason = Some ''Invalid payload structure''\<rparr>
               | Some sanitized \<Rightarrow>
                   if JSON_stringify sanitized \<noteq> serialized
                   then \<lparr>valid = False,
                         payload_reason = Some ''Payload contains potentially unsafe content''\<rparr>
                   else \<lparr>valid = True, payload_reason = None\<rparr>)
         else \<lparr>valid = True, payload_reason = None\<rparr>)"

definition tool_allowed :: "security_policy \<Rightarrow> string \<Rightarrow> string \<Rightarrow> bool" where
  "tool_allowed pol server tool =
     (case allowedTools pol server of
        Some Wildcard \<Rightarrow> True
      | Some (Tools ts) \<Rightarrow> tool \<in> set ts
      | None \<Rightarrow> False)"

definition deny :: "string \<Rightarrow> security_validation" where
  "deny r = \<lparr>allowed = False, reason = Some r\<rparr>"

definition performSecurityChecks ::
  "security_context \<Rightarrow> int \<Rightarrow> string \<Rightarrow> string \<Rightarrow> json \<Rightarrow> security_manager
     \<Rightarrow> security_validation \<times> security_manager" where
  "performSecurityChecks context' now server tool p sm =
     (if server \<notin> set (allowedServers (policy sm))
      then (deny (''Server '' @ server @ '' not in allowed list''), sm)
      else if \<not> tool_allowed (policy sm) server tool
      then (deny (''Tool '' @ tool @ '' not allowed on server '' @ server), sm)
      else if \<not> checkRuntimePermissions context' server tool
      then (deny ''Insufficient runtime permissions'', sm)
      else case checkRateLimits now server sm of
             (False, sm') \<Rightarrow> (deny ''Rate limit exceeded'', sm')
           | (True, sm') \<Rightarrow>
               (let payloadValidation = validatePayload (policy sm') p
                in if \<not> valid payloadValidation
                   then (\<lparr>allowed = False, reason = payload_reason payloadValidation\<rparr>, sm')
                   else (\<lparr>allowed = True, reason = None\<rparr>, sm')))"

subsection \<open>Concurrency tracking\<close>

definition trackRequestStart :: "string \<Rightarrow> security_manager \<Rightarrow> security_manager" where
  "trackRequestStart server sm =
     (let current = (case concurrentRequests sm server of Some n \<Rightarrow> n | None \<Rightarrow> 0)
      in sm\<lparr>concurrentRequests := (concurrentRequests sm)(server \<mapsto> current + 1)\<rparr>)"

definition trackRequestEnd :: "string \<Rightarrow> security_manager \<Rightarrow> security_manager" where
  "trackRequestEnd server sm =
     (let current = (case concurrentRequests sm server of Some n \<Rightarrow> n | None \<Rightarrow> 0)
      in sm\<lparr>concurrentRequests := (concurrentRequests sm)(server \<mapsto> max 0 (current - 1))\<rparr>)"

subsection \<open>Audit log\<close>

definition logAuditEntry :: "audit_log_entry \<Rightarrow> security_manager \<Rightarrow> security_manager" where
  "logAuditEntry entry sm =
     (let pushed = auditLog sm @ [entry]
      in sm\<lparr>auditLog := (if length pushed > 1000
                          then drop (length pushed - 1000) pushed else pushed)\<rparr>)"

text \<open>
  \<open>validateToolCall\<close> runs the checks and then, if audit logging is on, builds the entry;
  \<open>sanitizeForLogging\<close> may throw there, after the checks have changed the counters.
\<close>

definition validateToolCall ::
  "security_context \<Rightarrow> int \<Rightarrow> string \<Rightarrow> string \<Rightarrow> json \<Rightarrow> security_manager
     \<Rightarrow> (error + security_validation) \<times> security_manager" where
  "validateToolCall context' now server tool p sm =
     (case performSecurityChecks context' now server tool p sm of
        (validationResult, sm') \<Rightarrow>
          if auditLogging (policy sm')
          then (case sanitizeForLogging p of
                  None \<Rightarrow> (Inl TypeError, sm')
                | Some logged \<Rightarrow>
                    (Inr validationResult,
                     logAuditEntry
                       \<lparr>timestamp = now, runtime = ctx_runtime context', serverName = server,
                        toolName = tool, params = logged,
                        result = (if allowed validationResult then success else denied),
                        entry_reason = reason validationResult, duration = None\<rparr> sm'))
          else (Inr validationResult, sm'))"

record audit_filter =
  filter_serverName :: "string option"
  filter_result :: "audit_result option"
  filter_since :: "int option"

text \<open>The callback of \<open>filtered.filter\<close>; an empty server name is falsy and filters nothing.\<close>

definition passes_filter :: "audit_filter \<Rightarrow> audit_log_entry \<Rightarrow> bool" where
  "passes_filter f entry =
     (if (case filter_serverName f of Some n \<Rightarrow> n \<noteq> [] \<and> serverName entry \<noteq> n | None \<Rightarrow> False)
      then False
      else if (case filter_result f of Some r \<Rightarrow> result entry \<noteq> r | None \<Rightarrow> False)
      then False
      else if (case filter_since f of Some t \<Rightarrow> timestamp entry < t | None \<Rightarrow> False)
      then False
      else True)"

definition getAuditLog :: "audit_filter option \<Rightarrow> security_manager \<Rightarrow> audit_log_entry list" where
  "getAuditLog f sm =
     (let filtered = (case f of None \<Rightarrow> auditLog sm
                      | Some flt \<Rightarrow> filter (passes_filter flt) (auditLog sm))
      in drop (length filtered - 100) filtered)"

section \<open>Client manager: the reply of a server that is not ready\<close>

datatype server_status = starting | ready | error_status | stopped


record mcp_client =
  servers :: "string \<rightharpoonup> server_status"
  fallbackToMock :: bool
  requestCounter :: nat

definition isServerAvailable :: "mcp_client \<Rightarrow> string \<Rightarrow> bool" where
  "isServerAvailable c server = (servers c server = Some ready)"




section \<open>Runtime manager: the tool proxy\<close>

record runtime_manager =
  securityManager :: security_manager
  mcpClient :: mcp_client
  fallbackToMocks :: bool
  toolsCalled :: "string list"

definition createLegacyMockResponse :: "string \<Rightarrow> string \<Rightarrow> json list \<Rightarrow> json" where
  "createLegacyMockResponse server tool args =
     JObj [(''mock'', JBool True), (''server'', JStr server), (''method'', JStr tool),
           (''args'', JArr args)]"

text \<open>The \<open>catch\<close> block of the proxy.\<close>

definition proxy_catch ::
  "string \<Rightarrow> string \<Rightarrow> json list \<Rightarrow> error \<Rightarrow> runtime_manager \<Rightarrow> (error + json) \<times> runtime_manager" where
  "proxy_catch server tool args e rm =
     (if fallbackToMocks rm then (Inr (createLegacyMockResponse server tool args), rm)
      else (Inl e, rm))"

text \<open>
  One call \<open>proxy.tool(...args)\<close> of the proxy that \<open>createMCPToolProxy\<close> builds for a
  server. The argument \<open>real\<close> is what \<open>formatMCPResponse(await sendRequest(...))\<close> gives
  when the branch that calls the server is taken: a value, or the error thrown.
\<close>

definition createMCPToolProxy ::
  "security_context \<Rightarrow> int \<Rightarrow> string \<Rightarrow> string \<Rightarrow> json list \<Rightarrow> (error + json) \<Rightarrow> runtime_manager
     \<Rightarrow> (error + json) \<times> runtime_manager" where
  "createMCPToolProxy securityContext now server tool args real rm =
     (let rm1 = rm\<lparr>toolsCalled := toolsCalled rm @ [server @ ''.'' @ tool]\<rparr>;
          p = convertArgsToParams tool args
      in case validateToolCall securityContext now server tool p (securityManager rm1) of
           (Inl e, sm) \<Rightarrow> proxy_catch server tool args e (rm1\<lparr>securityManager := sm\<rparr>)
         | (Inr validation, sm) \<Rightarrow>
             if \<not> allowed validation
             then proxy_catch server tool args
                    (Error (''Access denied: ''
                       @ (case reason validation of Some r \<Rightarrow> r | None \<Rightarrow> ''undefined'')))
                    (rm1\<lparr>securityManager := sm\<rparr>)
             else
               (let outcome =
                      (if \<not> fallbackToMocks rm1 \<and> isServerAvailable (mcpClient rm1) server
                       then real
                       else Inr (createLegacyMockResponse server tool args));
                    rm2 = rm1\<lparr>securityManager := trackRequestEnd server (trackRequestStart server sm)\<rparr>
                in case outcome of
                     Inl e \<Rightarrow> proxy_catch server tool args e rm2
                   | Inr v \<Rightarrow> (Inr v, rm2)))"

text \<open>The state \<open>new LocalRuntimeManager()\<close> starts from, with no server connected.\<close>

definition new_LocalRuntimeManager :: runtime_manager where
  "new_LocalRuntimeManager = \<lparr>
     securityManager = new_SecurityManager default_policy,
     mcpClient = \<lparr>servers = Map.empty, fallbackToMock = True, requestCounter = 0\<rparr>,
     fallbackToMocks = True,
     toolsCalled = []\<rparr>"

text \<open>\<open>getDefaultPermissions()\<close>, the permissions of a request that brings none.\<close>

definition getDefaultPermissions :: security_permissions where
  "getDefaultPermissions = \<lparr>
     fileSystem_read = [''./data'', ''./config''],
     fileSystem_write = [''./temp''],
     network_allowedHosts = [''localhost'', ''127.0.0.1'']\<rparr>"

section \<open>Notions the properties are stated with\<close>

text \<open>Every key with its value, at any depth of a value, through objects and arrays.\<close>

fun all_members :: "json \<Rightarrow> (string \<times> json) list"
  and members_of_entries :: "(string \<times> json) list \<Rightarrow> (string \<times> json) list"
  and members_of_items :: "json list \<Rightarrow> (string \<times> json) list" where
  "all_members (JObj kvs) = members_of_entries kvs"
| "all_members (JArr xs) = members_of_items xs"
| "all_members JNull = []"
| "all_members (JBool b) = []"
| "all_members (JNum n) = []"
| "all_members (JStr s) = []"
| "members_of_entries [] = []"
| "members_of_entries ((k, v) # kvs) = (k, v) # all_members v @ members_of_entries kvs"
| "members_of_items [] = []"
| "members_of_items (x # xs) = all_members x @ members_of_items xs"




text \<open>No entry of the audit log holds anything but the literal under a sensitive key.\<close>

definition audit_redacted :: "security_manager \<Rightarrow> bool" where
  "audit_redacted sm =
     (\<forall>e \<in> set (auditLog sm). \<forall>(k, v) \<in> set (all_members (params e)).
        is_sensitive k \<longrightarrow> v = REDACTED)"


text \<open>The constructor's policy with a limit of two requests a minute for one server.\<close>

definition policy_rpm2 :: security_policy where
  "policy_rpm2 = default_policy\<lparr>rateLimits :=
      [''automem'' \<mapsto> \<lparr>requestsPerMinute = 2, maxConcurrent = 10\<rparr>]\<rparr>"

text \<open>The verdicts of \<open>checkRateLimits\<close> for requests arriving at the given instants.\<close>

fun run_checkRateLimits :: "int list \<Rightarrow> string \<Rightarrow> security_manager \<Rightarrow> bool list" where
  "run_checkRateLimits [] server sm = []"
| "run_checkRateLimits (now # later) server sm =
     (case checkRateLimits now server sm of
        (ok, sm') \<Rightarrow> ok # run_checkRateLimits later server sm')"


section \<open>Argument mapping: what the proxy hands to the server\<close>

lemma index_entries_zip:
  "index_entries i xs = zip (map nat_to_string [i ..< i + length xs]) xs"
proof (induction xs arbitrary: i)
  case Nil
  show ?case by simp
next
  case (Cons x xs)
  have "[i ..< i + length (x # xs)] = i # [Suc i ..< Suc i + length xs]"
    by (subst upt_rec) simp
  then show ?case using Cons.IH [of "Suc i"] by simp
qed

lemma unknown_tool_default:
  assumes "tool \<notin> set known_tools"
  shows "convertArgsToParams tool args =
     (if length args = 1 \<and> typeof_object (args ! 0) then args ! 0
      else JObj (map (\<lambda>(k, v). (''arg'' @ k, v)) (index_entries 0 args)))"
  using assms by (simp add: convertArgsToParams_def known_tools_def)

lemma nat_to_string_digits:
  "nat_to_string 0 = ''0''" "nat_to_string 1 = ''1''" "nat_to_string 2 = ''2''"
  by code_simp+

text \<open>
  C9, as the code has it. For \<open>store_memory\<close> each of the first three arguments is
  mapped to its name (content, importance, tags) if it is truthy and left out if it is
  falsy or missing; further arguments are ignored. For a tool the table does not know, a
  single argument that is a mapping or an array is passed through unchanged, and a vector
  that is not a single value of type object becomes \<open>{arg0, arg1, ...}\<close> in order.
\<close>

theorem convertArgsToParams_mapping:
  assumes "tool \<notin> set known_tools"
  shows "convertArgsToParams ''store_memory'' (c # i # t # extra)
           = JObj ((if truthy c then [(''content'', c)] else [])
                 @ (if truthy i then [(''importance'', i)] else [])
                 @ (if truthy t then [(''tags'', t)] else []))
       \<and> convertArgsToParams ''store_memory'' [c, i]
           = JObj ((if truthy c then [(''content'', c)] else [])
                 @ (if truthy i then [(''importance'', i)] else []))
       \<and> convertArgsToParams ''store_memory'' [c]
           = JObj (if truthy c then [(''content'', c)] else [])
       \<and> convertArgsToParams ''store_memory'' [] = JObj []
       \<and> convertArgsToParams tool [JObj kvs] = JObj kvs
       \<and> convertArgsToParams tool [JArr xs] = JArr xs
       \<and> (length args \<noteq> 1 \<or> \<not> typeof_object (args ! 0) \<longrightarrow>
            convertArgsToParams tool args
              = JObj (zip (map (\<lambda>n. ''arg'' @ nat_to_string n) [0 ..< length args]) args))"
proof -
  have a3: "convertArgsToParams ''store_memory'' (c # i # t # extra)
           = JObj ((if truthy c then [(''content'', c)] else [])
                 @ (if truthy i then [(''importance'', i)] else [])
                 @ (if truthy t then [(''tags'', t)] else []))"
    by (simp add: convertArgsToParams_def named_if_truthy_def arg_at_def)
  have a2: "convertArgsToParams ''store_memory'' [c, i]
           = JObj ((if truthy c then [(''content'', c)] else [])
                 @ (if truthy i then [(''importance'', i)] else []))"
    by (simp add: convertArgsToParams_def named_if_truthy_def arg_at_def)
  have a1: "convertArgsToParams ''store_memory'' [c]
           = JObj (if truthy c then [(''content'', c)] else [])"
    by (simp add: convertArgsToParams_def named_if_truthy_def arg_at_def)
  have a0: "convertArgsToParams ''store_memory'' [] = JObj []"
    by (simp add: convertArgsToParams_def named_if_truthy_def arg_at_def)
  have z: "map (\<lambda>(k, v). (''arg'' @ k, v)) (index_entries 0 args)
      = zip (map (\<lambda>n. ''arg'' @ nat_to_string n) [0 ..< length args]) args"
    by (simp add: index_entries_zip zip_map1 case_prod_beta del: upt.simps)
  have b: "convertArgsToParams tool [JObj kvs] = JObj kvs"
    and c: "convertArgsToParams tool [JArr xs] = JArr xs"
    using assms by (simp_all add: unknown_tool_default)
  have d: "length args \<noteq> 1 \<or> \<not> typeof_object (args ! 0) \<longrightarrow>
            convertArgsToParams tool args
              = JObj (zip (map (\<lambda>n. ''arg'' @ nat_to_string n) [0 ..< length args]) args)"
    using assms z by (auto simp: unknown_tool_default)
  from a3 a2 a1 a0 b c d show ?thesis by blast
qed

theorem convertArgsToParams_mapping_witness:
  "''analyze'' \<notin> set known_tools
   \<and> convertArgsToParams ''store_memory'' [JStr ''hi'', JNum 8, JArr [JStr ''t'']]
       = JObj [(''content'', JStr ''hi''), (''importance'', JNum 8), (''tags'', JArr [JStr ''t''])]
   \<and> convertArgsToParams ''store_memory'' [JStr ''hi'', JNum 8]
       = JObj [(''content'', JStr ''hi''), (''importance'', JNum 8)]
   \<and> convertArgsToParams ''analyze'' [JObj [(''x'', JNum 1)]] = JObj [(''x'', JNum 1)]
   \<and> convertArgsToParams ''analyze'' [JArr [JNum 1]] = JArr [JNum 1]
   \<and> convertArgsToParams ''analyze'' [JStr ''a'', JNum 1]
       = JObj [(''arg0'', JStr ''a''), (''arg1'', JNum 1)]"
proof -
  have h: "''analyze'' \<notin> set known_tools"
    by (simp add: known_tools_def)
  have u: "nat_to_string (Suc 0) = ''1''"
    using nat_to_string_digits(2) by simp
  show ?thesis
    using h convertArgsToParams_mapping [OF h,
        where c = "JStr ''hi''" and i = "JNum 8" and t = "JArr [JStr ''t'']" and extra = "[]"
          and kvs = "[(''x'', JNum 1)]" and xs = "[JNum 1]" and args = "[JStr ''a'', JNum 1]"]
    by (simp add: u nat_to_string_digits)
qed

text \<open>
  C9 as the claim words it fails twice: a falsy argument of \<open>store_memory\<close> (an importance
  of 0) gets no named parameter, and a single array given to an unknown tool is passed
  through instead of becoming \<open>{arg0: ...}\<close>.
\<close>

theorem convertArgsToParams_counterexample:
  "convertArgsToParams ''store_memory'' [JStr ''hi'', JNum 0, JArr [JStr ''t'']]
     \<noteq> JObj [(''content'', JStr ''hi''), (''importance'', JNum 0), (''tags'', JArr [JStr ''t''])]
   \<and> convertArgsToParams ''store_memory'' [JStr ''hi'', JNum 0, JArr [JStr ''t'']]
     = JObj [(''content'', JStr ''hi''), (''tags'', JArr [JStr ''t''])]
   \<and> convertArgsToParams ''analyze'' [JArr [JNum 1]] \<noteq> JObj [(''arg0'', JArr [JNum 1])]
   \<and> convertArgsToParams ''analyze'' [JArr [JNum 1]] = JArr [JNum 1]"
  by (simp add: convertArgsToParams_def named_if_truthy_def arg_at_def)

section \<open>The audit log and its accessor\<close>

lemma drop_is_suffix: "\<exists>older. xs = older @ drop n xs"
  by (metis append_take_drop_id)

text \<open>
  C10. The log keeps the most recent 1000 entries: after \<open>logAuditEntry\<close> it is the end of
  the old log followed by the new entry, 1000 long at most. \<open>getAuditLog\<close> returns the end
  of the list of the entries that pass the filter (all entries when there is no filter),
  in log order, 100 long at most, and all of them when they are 100 or fewer.
\<close>

theorem getAuditLog_most_recent_100:
  "length (auditLog (logAuditEntry entry sm)) = min 1000 (Suc (length (auditLog sm)))
   \<and> (\<exists>older. auditLog sm @ [entry] = older @ auditLog (logAuditEntry entry sm))
   \<and> length (getAuditLog None sm) = min 100 (length (auditLog sm))
   \<and> (\<exists>older. auditLog sm = older @ getAuditLog None sm)
   \<and> length (getAuditLog (Some flt) sm)
        = min 100 (length (filter (passes_filter flt) (auditLog sm)))
   \<and> (\<exists>older. filter (passes_filter flt) (auditLog sm) = older @ getAuditLog (Some flt) sm)"
proof -
  have a: "length (auditLog (logAuditEntry entry sm)) = min 1000 (Suc (length (auditLog sm)))"
    by (simp add: logAuditEntry_def Let_def)
  have b: "\<exists>older. auditLog sm @ [entry] = older @ auditLog (logAuditEntry entry sm)"
  proof (cases "length (auditLog sm @ [entry]) > 1000")
    case True
    then have "auditLog (logAuditEntry entry sm)
        = drop (length (auditLog sm @ [entry]) - 1000) (auditLog sm @ [entry])"
      by (simp add: logAuditEntry_def Let_def)
    then show ?thesis using drop_is_suffix [of "auditLog sm @ [entry]"] by metis
  next
    case False
    then have "auditLog (logAuditEntry entry sm) = auditLog sm @ [entry]"
      by (simp add: logAuditEntry_def Let_def)
    then show ?thesis by simp
  qed
  have c: "length (getAuditLog None sm) = min 100 (length (auditLog sm))"
    by (simp add: getAuditLog_def Let_def)
  have d: "\<exists>older. auditLog sm = older @ getAuditLog None sm"
    using drop_is_suffix [of "auditLog sm"] by (simp add: getAuditLog_def Let_def)
  have e: "length (getAuditLog (Some flt) sm)
        = min 100 (length (filter (passes_filter flt) (auditLog sm)))"
    by (simp add: getAuditLog_def Let_def)
  have f: "\<exists>older. filter (passes_filter flt) (auditLog sm) = older @ getAuditLog (Some flt) sm"
    using drop_is_suffix [of "filter (passes_filter flt) (auditLog sm)"]
    by (simp add: getAuditLog_def Let_def)
  from a b c d e f show ?thesis by blast
qed

section \<open>What the checks leave unchanged\<close>

lemma cleanup_keeps:
  "auditLog (cleanupRateLimitCounters now sm) = auditLog sm"
  "policy (cleanupRateLimitCounters now sm) = policy sm"
  "concurrentRequests (cleanupRateLimitCounters now sm) = concurrentRequests sm"
  by (simp_all add: cleanupRateLimitCounters_def Let_def)

lemma check_concurrent_keeps:
  "auditLog (snd (check_concurrent now server limits sm)) = auditLog sm"
  "policy (snd (check_concurrent now server limits sm)) = policy sm"
  "concurrentRequests (snd (check_concurrent now server limits sm)) = concurrentRequests sm"
  by (simp_all add: check_concurrent_def Let_def cleanup_keeps)

lemma checkRateLimits_keeps:
  "auditLog (snd (checkRateLimits now server sm)) = auditLog sm"
  "policy (snd (checkRateLimits now server sm)) = policy sm"
  "concurrentRequests (snd (checkRateLimits now server sm)) = concurrentRequests sm"
  by (simp_all add: checkRateLimits_def Let_def check_concurrent_keeps split: option.splits)

lemma performSecurityChecks_state:
  "snd (performSecurityChecks context' now server tool p sm)
     = (if server \<in> set (allowedServers (policy sm)) \<and> tool_allowed (policy sm) server tool
           \<and> checkRuntimePermissions context' server tool
        then snd (checkRateLimits now server sm) else sm)"
  by (simp add: performSecurityChecks_def Let_def split: prod.splits bool.splits)

lemma performSecurityChecks_keeps:
  "auditLog (snd (performSecurityChecks context' now server tool p sm)) = auditLog sm"
  "policy (snd (performSecurityChecks context' now server tool p sm)) = policy sm"
  "concurrentRequests (snd (performSecurityChecks context' now server tool p sm))
     = concurrentRequests sm"
  by (simp_all add: performSecurityChecks_state checkRateLimits_keeps)

lemma set_logAuditEntry:
  "set (auditLog (logAuditEntry entry sm)) \<subseteq> insert entry (set (auditLog sm))"
proof -
  have "set (drop n (auditLog sm @ [entry])) \<subseteq> insert entry (set (auditLog sm))" for n
    using set_drop_subset [of n "auditLog sm @ [entry]"] by auto
  then show ?thesis by (auto simp: logAuditEntry_def Let_def)
qed

lemma validateToolCall_log:
  "set (auditLog (snd (validateToolCall context' now server tool p sm)))
     \<subseteq> set (auditLog sm) \<union> {e. \<exists>logged. sanitizeForLogging p = Some logged \<and> params e = logged}"
proof -
  obtain v sm' where c: "performSecurityChecks context' now server tool p sm = (v, sm')"
    by (cases "performSecurityChecks context' now server tool p sm")
  then have l: "auditLog sm' = auditLog sm"
    using performSecurityChecks_keeps(1) [of context' now server tool p sm] by simp
  show ?thesis
  proof (cases "auditLogging (policy sm')")
    case False
    with c l show ?thesis by (simp add: validateToolCall_def)
  next
    case True
    show ?thesis
    proof (cases "sanitizeForLogging p")
      case None
      with True c l show ?thesis by (simp add: validateToolCall_def)
    next
      case (Some logged)
      with True c l show ?thesis
        using set_logAuditEntry [of _ sm']
        by (fastforce simp: validateToolCall_def)
    qed
  qed
qed

section \<open>Redaction\<close>

lemma members_assign:
  "set (members_of_entries (assign k v rest))
     \<subseteq> insert (k, v) (set (all_members v) \<union> set (members_of_entries rest))"
  by auto

lemma members_REDACTED [simp]: "all_members REDACTED = []"
  by (simp add: REDACTED_def)

lemma members_of_chars:
  "(k0, v0) \<in> set (members_of_entries
       (map (\<lambda>(k, c). (k, if is_sensitive k then REDACTED else JStr [c])) es))
   \<Longrightarrow> is_sensitive k0 \<Longrightarrow> v0 = REDACTED"
  by (induction es) (auto split: if_splits)

lemma sanitizeForLogging_redacts:
  "sanitizeForLogging p = Some logged \<Longrightarrow>
     (k0, v0) \<in> set (all_members logged) \<Longrightarrow> is_sensitive k0 \<Longrightarrow> v0 = REDACTED"
  "sanitizeForLogging_entries kvs = Some es \<Longrightarrow>
     (k0, v0) \<in> set (members_of_entries es) \<Longrightarrow> is_sensitive k0 \<Longrightarrow> v0 = REDACTED"
  "sanitizeForLogging_indexed i xs = Some es \<Longrightarrow>
     (k0, v0) \<in> set (members_of_entries es) \<Longrightarrow> is_sensitive k0 \<Longrightarrow> v0 = REDACTED"
  "sanitizeForLogging_value k v = Some v' \<Longrightarrow>
     (is_sensitive k \<longrightarrow> v' = REDACTED)
     \<and> ((k0, v0) \<in> set (all_members v') \<longrightarrow> is_sensitive k0 \<longrightarrow> v0 = REDACTED)"
proof (induction p and kvs and i xs and k v arbitrary: logged and es and es and v'
    rule: sanitizeForLogging_sanitizeForLogging_entries_sanitizeForLogging_indexed_sanitizeForLogging_value.induct)
  case 1
  then show ?case by simp
next
  case (2 b)
  then show ?case by auto
next
  case (3 n)
  then show ?case by auto
next
  case (4 s)
  then show ?case using members_of_chars by auto
next
  case (5 xs)
  then show ?case by auto
next
  case (6 kvs)
  then show ?case by auto
next
  case 7
  then show ?case by auto
next
  case (8 k v kvs)
  from "8.prems"(1) obtain v' rest where
    v': "sanitizeForLogging_value k v = Some v'" and
    rest: "sanitizeForLogging_entries kvs = Some rest" and
    es: "es = assign k v' rest"
    by (auto split: option.splits)
  from "8.prems"(2) es members_assign [of k v' rest]
  have "(k0, v0) = (k, v') \<or> (k0, v0) \<in> set (all_members v')
      \<or> (k0, v0) \<in> set (members_of_entries rest)"
    by blast
  then show ?case
    using "8.IH"(1) [OF v'] "8.IH"(2) [OF v' rest] "8.prems"(3) by blast
next
  case (9 i)
  then show ?case by auto
next
  case (10 i x xs)
  from "10.prems"(1) obtain x' rest where
    x': "sanitizeForLogging_value (nat_to_string i) x = Some x'" and
    rest: "sanitizeForLogging_indexed (Suc i) xs = Some rest" and
    es: "es = assign (nat_to_string i) x' rest"
    by (auto split: option.splits)
  from "10.prems"(2) es members_assign [of "nat_to_string i" x' rest]
  have "(k0, v0) = (nat_to_string i, x') \<or> (k0, v0) \<in> set (all_members x')
      \<or> (k0, v0) \<in> set (members_of_entries rest)"
    by blast
  then show ?case
    using "10.IH"(1) [OF x'] "10.IH"(2) [OF x' rest] "10.prems"(3) by blast
next
  case (11 k v)
  show ?case
  proof (cases "is_sensitive k")
    case True
    with "11.prems" show ?thesis by auto
  next
    case False
    show ?thesis
    proof (cases v)
      case (JArr xs)
      with False "11.prems" "11.IH"(1) [OF False JArr] show ?thesis by simp
    next
      case (JObj kvs)
      with False "11.prems" "11.IH"(2) [OF False JObj] show ?thesis by simp
    qed (use False "11.prems" in auto)
  qed
qed

lemma not_sensitive_proto: "\<not> is_sensitive ''__proto__''"
  by code_simp

lemma startsWith_self: "startsWith s s"
  by (induction s) auto

lemma str_includes_self: "str_includes s s"
  by (cases s) (auto simp: startsWith_self)

lemma sensitive_word: "toLowerCase k \<in> set sensitiveKeys \<Longrightarrow> is_sensitive k"
  unfolding is_sensitive_def list_ex_iff using str_includes_self by blast

lemma entries_keep_sensitive:
  "sanitizeForLogging_entries kvs = Some es \<Longrightarrow> (k, v) \<in> set kvs \<Longrightarrow> is_sensitive k
     \<Longrightarrow> map_of es k = Some REDACTED"
proof (induction kvs arbitrary: es)
  case Nil
  then show ?case by simp
next
  case (Cons kv kvs)
  obtain k1 v1 where kv: "kv = (k1, v1)" by (cases kv)
  from Cons.prems(1) kv obtain v1' rest where
    v1': "sanitizeForLogging_value k1 v1 = Some v1'" and
    rest: "sanitizeForLogging_entries kvs = Some rest" and
    es: "es = assign k1 v1' rest"
    by (auto split: option.splits)
  show ?case
  proof (cases "k1 = k")
    case True
    with v1' Cons.prems(3) have "v1' = REDACTED" by simp
    moreover from True Cons.prems(3) have "k1 \<noteq> ''__proto__''"
      using not_sensitive_proto by auto
    ultimately show ?thesis using es True by simp
  next
    case False
    with Cons.prems(2) kv have "(k, v) \<in> set kvs" by auto
    from Cons.IH [OF rest this Cons.prems(3)] False es show ?thesis by simp
  qed
qed

text \<open>
  C3. In what \<open>sanitizeForLogging\<close> returns, every key at any depth whose lower-cased name
  contains one of the sensitive words (in particular: is one of them) holds the literal
  \<open>"[REDACTED]"\<close>; a sensitive key of the parameter object is still there, with the
  literal as its value; and, since the parameters of an audit entry are always the
  result of \<open>sanitizeForLogging\<close>, the audit log of a fresh manager has the property and
  every \<open>validateToolCall\<close> keeps it.
\<close>

theorem sanitizeForLogging_redaction:
  "(sanitizeForLogging p = Some logged \<longrightarrow> (k, v) \<in> set (all_members logged) \<longrightarrow>
      is_sensitive k \<longrightarrow> v = REDACTED)
   \<and> (toLowerCase k \<in> set sensitiveKeys \<longrightarrow> is_sensitive k)
   \<and> (sanitizeForLogging (JObj kvs) = Some (JObj es) \<longrightarrow> (k', v') \<in> set kvs \<longrightarrow>
        is_sensitive k' \<longrightarrow> map_of es k' = Some REDACTED)
   \<and> audit_redacted (new_SecurityManager pol)
   \<and> (audit_redacted sm \<longrightarrow>
        audit_redacted (snd (validateToolCall context' now server tool p' sm)))"
proof -
  have a: "sanitizeForLogging p = Some logged \<longrightarrow> (k, v) \<in> set (all_members logged) \<longrightarrow>
      is_sensitive k \<longrightarrow> v = REDACTED"
    using sanitizeForLogging_redacts(1) by blast
  have b: "toLowerCase k \<in> set sensitiveKeys \<longrightarrow> is_sensitive k"
    using sensitive_word by blast
  have c: "sanitizeForLogging (JObj kvs) = Some (JObj es) \<longrightarrow> (k', v') \<in> set kvs \<longrightarrow>
        is_sensitive k' \<longrightarrow> map_of es k' = Some REDACTED"
    using entries_keep_sensitive [of kvs es k' v'] by auto
  have d: "audit_redacted (new_SecurityManager pol)"
    by (simp add: audit_redacted_def new_SecurityManager_def)
  have e: "audit_redacted sm \<longrightarrow>
        audit_redacted (snd (validateToolCall context' now server tool p' sm))"
  proof
    assume inv: "audit_redacted sm"
    show "audit_redacted (snd (validateToolCall context' now server tool p' sm))"
      unfolding audit_redacted_def
    proof (intro ballI, clarify)
      fix e k0 v0
      assume e: "e \<in> set (auditLog (snd (validateToolCall context' now server tool p' sm)))"
        and m: "(k0, v0) \<in> set (all_members (params e))" and s: "is_sensitive k0"
      from e validateToolCall_log [of context' now server tool p' sm]
      consider "e \<in> set (auditLog sm)" | "sanitizeForLogging p' = Some (params e)"
        by auto
      then show "v0 = REDACTED"
      proof cases
        case 1
        with inv m s show ?thesis unfolding audit_redacted_def by blast
      next
        case 2
        from sanitizeForLogging_redacts(1) [OF 2 m s] show ?thesis .
      qed
    qed
  qed
  from a b c d e show ?thesis by blast
qed

theorem sanitizeForLogging_redaction_witness:
  "sanitizeForLogging (JObj [(''apiKey'', JStr ''s''), (''n'', JObj [(''Password'', JNum 1)])])
     = Some (JObj [(''apiKey'', JStr ''[REDACTED]''),
                   (''n'', JObj [(''Password'', JStr ''[REDACTED]'')])])
   \<and> (''Password'', JStr ''[REDACTED]'')
       \<in> set (all_members (JObj [(''apiKey'', JStr ''[REDACTED]''),
                                  (''n'', JObj [(''Password'', JStr ''[REDACTED]'')])]))
   \<and> is_sensitive ''Password''
   \<and> toLowerCase ''Password'' \<in> set sensitiveKeys
   \<and> (''apiKey'', JStr ''s'') \<in> set [(''apiKey'', JStr ''s''), (''n'', JObj [(''Password'', JNum 1)])]
   \<and> is_sensitive ''apiKey''
   \<and> map_of [(''apiKey'', JStr ''[REDACTED]''), (''n'', JObj [(''Password'', JStr ''[REDACTED]'')])]
         ''apiKey'' = Some REDACTED
   \<and> audit_redacted (new_SecurityManager default_policy)
   \<and> audit_redacted (snd (validateToolCall
         \<lparr>ctx_runtime = ''typescript'', permissions = getDefaultPermissions\<rparr> 0
         ''automem'' ''store_memory''
         (JObj [(''apiKey'', JStr ''s''), (''n'', JObj [(''Password'', JNum 1)])])
         (new_SecurityManager default_policy)))"
proof -
  have h1: "sanitizeForLogging (JObj [(''apiKey'', JStr ''s''), (''n'', JObj [(''Password'', JNum 1)])])
     = Some (JObj [(''apiKey'', JStr ''[REDACTED]''),
                   (''n'', JObj [(''Password'', JStr ''[REDACTED]'')])])"
    by code_simp
  have h2: "(''Password'', JStr ''[REDACTED]'')
       \<in> set (all_members (JObj [(''apiKey'', JStr ''[REDACTED]''),
                                  (''n'', JObj [(''Password'', JStr ''[REDACTED]'')])]))"
    by simp
  have h3: "is_sensitive ''Password''" by code_simp
  have h4: "toLowerCase ''Password'' \<in> set sensitiveKeys" by code_simp
  have h5: "(''apiKey'', JStr ''s'') \<in> set [(''apiKey'', JStr ''s''), (''n'', JObj [(''Password'', JNum 1)])]"
    by simp
  have h6: "is_sensitive ''apiKey''" by code_simp
  note t = sanitizeForLogging_redaction
    [where p = "JObj [(''apiKey'', JStr ''s''), (''n'', JObj [(''Password'', JNum 1)])]"
       and logged = "JObj [(''apiKey'', JStr ''[REDACTED]''),
                           (''n'', JObj [(''Password'', JStr ''[REDACTED]'')])]"
       and k = "''Password''" and v = "JStr ''[REDACTED]''"
       and kvs = "[(''apiKey'', JStr ''s''), (''n'', JObj [(''Password'', JNum 1)])]"
       and es = "[(''apiKey'', JStr ''[REDACTED]''), (''n'', JObj [(''Password'', JStr ''[REDACTED]'')])]"
       and k' = "''apiKey''" and v' = "JStr ''s''"
       and pol = default_policy and sm = "new_SecurityManager default_policy"
       and context' = "\<lparr>ctx_runtime = ''typescript'', permissions = getDefaultPermissions\<rparr>"
       and now = 0 and server = "''automem''" and tool = "''store_memory''"
       and p' = "JObj [(''apiKey'', JStr ''s''), (''n'', JObj [(''Password'', JNum 1)])]"]
  from t h1 h5 h6 have c7: "map_of [(''apiKey'', JStr ''[REDACTED]''),
      (''n'', JObj [(''Password'', JStr ''[REDACTED]'')])] ''apiKey'' = Some REDACTED"
    by blast
  from t have c8: "audit_redacted (new_SecurityManager default_policy)" by blast
  from t c8 have c9: "audit_redacted (snd (validateToolCall
         \<lparr>ctx_runtime = ''typescript'', permissions = getDefaultPermissions\<rparr> 0
         ''automem'' ''store_memory''
         (JObj [(''apiKey'', JStr ''s''), (''n'', JObj [(''Password'', JNum 1)])])
         (new_SecurityManager default_policy)))"
    by blast
  from h1 h2 h3 h4 h5 h6 c7 c8 c9 show ?thesis by blast
qed

section \<open>The policy decision\<close>


lemma performSecurityChecks_example:
  "fst (performSecurityChecks \<lparr>ctx_runtime = ''typescript'', permissions = getDefaultPermissions\<rparr> 0
         ''evil'' ''read_file'' (JObj [(''note'', JStr ''<script>x</script>'')])
         (new_SecurityManager default_policy))
     = \<lparr>allowed = False, reason = Some ''Server evil not in allowed list''\<rparr>
   \<and> fst (performSecurityChecks \<lparr>ctx_runtime = ''typescript'', permissions = getDefaultPermissions\<rparr> 0
         ''automem'' ''read_file'' (JObj [(''note'', JStr ''<script>x</script>'')])
         (new_SecurityManager default_policy))
     = \<lparr>allowed = False, reason = Some ''Tool read_file not allowed on server automem''\<rparr>
   \<and> fst (performSecurityChecks \<lparr>ctx_runtime = ''typescript'', permissions = getDefaultPermissions\<rparr> 0
         ''automem'' ''recall'' (JObj [(''note'', JStr ''<script>x</script>'')])
         (new_SecurityManager default_policy))
     = \<lparr>allowed = False, reason = Some ''Payload contains potentially unsafe content''\<rparr>"
  by code_simp







section \<open>Rate limiting\<close>

text \<open>
  C6, at the input where the code departs from it. With a limit of two requests a minute,
  two requests in minute 0 pass; the next request arrives an hour later, the first of a
  new minute and of a new window, and is denied: the counter is stored under the minute
  of the hour, and the clean-up of old counters runs only after a request has passed.
\<close>

theorem checkRateLimits_stale_counter:
  "run_checkRateLimits [0, 1000, 3600000] ''automem'' (new_SecurityManager policy_rpm2)
     = [True, True, False]
   \<and> getMinutes 1000 = 0 \<and> getMinutes 3600000 = 0
   \<and> requestsPerMinute (effective_limits policy_rpm2 ''automem'') = 2"
  by code_simp

lemma checkRateLimits_next_minute:
  "run_checkRateLimits [0, 1000, 2000, 60000] ''automem'' (new_SecurityManager policy_rpm2)
     = [True, True, False, True]"
  by code_simp

text \<open>What \<open>checkRateLimits\<close> does in a window that starts without a counter.\<close>

lemma checkRateLimits_denied_at_limit:
  assumes "rateLimitCounters sm (rate_key server now) = Some c"
    and "count c \<ge> requestsPerMinute (effective_limits (policy sm) server)"
  shows "checkRateLimits now server sm = (False, sm)"
  using assms by (simp add: checkRateLimits_def Let_def)

lemma checkRateLimits_fresh_window:
  assumes "rateLimitCounters sm (rate_key server now) = None"
    and "(case concurrentRequests sm server of Some n \<Rightarrow> n | None \<Rightarrow> 0)
           < maxConcurrent (effective_limits (policy sm) server)"
  shows "fst (checkRateLimits now server sm)"
    and "rateLimitCounters (snd (checkRateLimits now server sm)) (rate_key server now)
           = Some \<lparr>count = 1, window = now\<rparr>"
  using assms
  by (simp_all add: checkRateLimits_def check_concurrent_def cleanupRateLimitCounters_def Let_def)

section \<open>The tool proxy\<close>

lemma proxy_fallback_reply:
  assumes "fallbackToMocks rm"
  shows "fst (createMCPToolProxy context' now server tool args real rm)
     = Inr (createLegacyMockResponse server tool args)"
proof -
  let ?rm1 = "rm\<lparr>toolsCalled := toolsCalled rm @ [server @ ''.'' @ tool]\<rparr>"
  obtain r sm where v: "validateToolCall context' now server tool
      (convertArgsToParams tool args) (securityManager ?rm1) = (r, sm)"
    by (cases "validateToolCall context' now server tool
      (convertArgsToParams tool args) (securityManager ?rm1)")
  show ?thesis
    using assms v
    by (cases r) (simp_all add: createMCPToolProxy_def proxy_catch_def Let_def)
qed

lemma proxy_denial_without_fallback:
  assumes "\<not> fallbackToMocks rm"
    and "fst (validateToolCall context' now server tool (convertArgsToParams tool args)
           (securityManager rm)) = Inr \<lparr>allowed = False, reason = Some r\<rparr>"
  shows "fst (createMCPToolProxy context' now server tool args real rm)
     = Inl (Error (''Access denied: '' @ r))"
proof -
  obtain sm where v: "validateToolCall context' now server tool
      (convertArgsToParams tool args) (securityManager rm)
       = (Inr \<lparr>allowed = False, reason = Some r\<rparr>, sm)"
    using assms(2)
    by (cases "validateToolCall context' now server tool
      (convertArgsToParams tool args) (securityManager rm)") auto
  show ?thesis
    using assms(1) v
    by (simp add: createMCPToolProxy_def proxy_catch_def Let_def)
qed

text \<open>
  C1, at the input where the code departs from it. The policy denies the tool
  \<open>invalid_method\<close> on \<open>automem\<close>; the proxy of a runtime manager as constructed
  (\<open>fallbackToMocks\<close> set) throws the access-denied error inside its own \<open>try\<close> and its
  \<open>catch\<close> turns it into the mock reply. Only with \<open>fallbackToMocks\<close> unset does the
  caller receive the error.
\<close>

theorem proxy_denial_becomes_mock:
  "fst (validateToolCall \<lparr>ctx_runtime = ''typescript'', permissions = getDefaultPermissions\<rparr> 0
          ''automem'' ''invalid_method'' (convertArgsToParams ''invalid_method'' [JStr ''test''])
          (securityManager new_LocalRuntimeManager))
     = Inr \<lparr>allowed = False, reason = Some ''Tool invalid_method not allowed on server automem''\<rparr>
   \<and> fst (createMCPToolProxy \<lparr>ctx_runtime = ''typescript'', permissions = getDefaultPermissions\<rparr> 0
          ''automem'' ''invalid_method'' [JStr ''test''] real new_LocalRuntimeManager)
     = Inr (JObj [(''mock'', JBool True), (''server'', JStr ''automem''),
                  (''method'', JStr ''invalid_method''), (''args'', JArr [JStr ''test''])])
   \<and> fst (createMCPToolProxy \<lparr>ctx_runtime = ''typescript'', permissions = getDefaultPermissions\<rparr> 0
          ''automem'' ''invalid_method'' [JStr ''test''] real
          (new_LocalRuntimeManager\<lparr>fallbackToMocks := False\<rparr>))
     = Inl (Error ''Access denied: Tool invalid_method not allowed on server automem'')"
proof -
  let ?ctx = "\<lparr>ctx_runtime = ''typescript'', permissions = getDefaultPermissions\<rparr>"
  have d: "fst (validateToolCall ?ctx 0
          ''automem'' ''invalid_method'' (convertArgsToParams ''invalid_method'' [JStr ''test''])
          (securityManager new_LocalRuntimeManager))
     = Inr \<lparr>allowed = False, reason = Some ''Tool invalid_method not allowed on server automem''\<rparr>"
    by code_simp
  have f: "fallbackToMocks new_LocalRuntimeManager"
    by (simp add: new_LocalRuntimeManager_def)
  have m: "fst (createMCPToolProxy ?ctx 0
          ''automem'' ''invalid_method'' [JStr ''test''] real new_LocalRuntimeManager)
     = Inr (JObj [(''mock'', JBool True), (''server'', JStr ''automem''),
                  (''method'', JStr ''invalid_method''), (''args'', JArr [JStr ''test''])])"
    using proxy_fallback_reply [OF f] by (simp add: createLegacyMockResponse_def)
  have nf: "\<not> fallbackToMocks (new_LocalRuntimeManager\<lparr>fallbackToMocks := False\<rparr>)"
    by simp
  have d': "fst (validateToolCall ?ctx 0
          ''automem'' ''invalid_method'' (convertArgsToParams ''invalid_method'' [JStr ''test''])
          (securityManager (new_LocalRuntimeManager\<lparr>fallbackToMocks := False\<rparr>)))
     = Inr \<lparr>allowed = False, reason = Some ''Tool invalid_method not allowed on server automem''\<rparr>"
    using d by simp
  have e: "fst (createMCPToolProxy ?ctx 0
          ''automem'' ''invalid_method'' [JStr ''test''] real
          (new_LocalRuntimeManager\<lparr>fallbackToMocks := False\<rparr>))
     = Inl (Error ''Access denied: Tool invalid_method not allowed on server automem'')"
    using proxy_denial_without_fallback [OF nf d'] by simp
  from d m e show ?thesis by blast
qed





section \<open>Sanitising twice\<close>

text \<open>
  C4, at the input where the code departs from it. Each pattern is removed in a single
  pass, so removing \<open>javascript:\<close> from \<open>javajavascript:script:\<close> leaves \<open>javascript:\<close>,
  and a second \<open>sanitizeInputs\<close> changes the value again.
\<close>

theorem sanitizeInputs_not_idempotent:
  "sanitizeInputs (JObj [(''x'', JStr ''javajavascript:script:'')])
     = Some (JObj [(''x'', JStr ''javascript:'')])
   \<and> sanitizeInputs (JObj [(''x'', JStr ''javascript:'')]) = Some (JObj [(''x'', JStr [])])"
  by code_simp

end
